theory Spec2Isabelle
  imports Main "HOL-Library.Sublist"
begin

section \<open>The Torchscript export hook of ClassyVision\<close>

text \<open>
  A shallow embedding of \<^verbatim>\<open>classy_vision/hooks/torchscript_hook.py\<close>. The hook is glue
  between external collaborators (the rank query, the path manager, the tracer, the
  scripter, the program serializer), so the embedding passes an explicit interpreter
  state and records every call to a collaborator in an event log. What a collaborator
  answers is a parameter (the record \<open>env\<close>); what the hook does with the answer is
  translated from the source.
\<close>

subsection \<open>Python values\<close>

datatype pyval =
    PyNone
  | PyBool bool
  | PyInt int
  | PyStr string
  | PyTuple "pyval list"

text \<open>Python truth value testing, as used by \<^verbatim>\<open>if not input_shape\<close> and \<^verbatim>\<open>if self.use_trace\<close>.\<close>

fun truthy :: "pyval \<Rightarrow> bool" where
  "truthy PyNone = False"
| "truthy (PyBool b) = b"
| "truthy (PyInt i) = (i \<noteq> 0)"
| "truthy (PyStr s) = (s \<noteq> [])"
| "truthy (PyTuple xs) = (xs \<noteq> [])"

text \<open>\<^verbatim>\<open>isinstance(x, str)\<close>\<close>

fun isinstance_str :: "pyval \<Rightarrow> bool" where
  "isinstance_str (PyStr s) = True"
| "isinstance_str v = False"

subsection \<open>Exceptions\<close>

text \<open>
  \<open>AssertionError\<close>, \<open>FileNotFoundError\<close> and \<open>AttributeError\<close> are the exceptions the
  code of the hook itself can raise; \<open>ExternalError\<close> stands for an exception of a
  collaborator, identified by its tag.
\<close>

datatype exn =
    AssertionError string
  | FileNotFoundError string
  | AttributeError string
  | ExternalError nat

subsection \<open>Objects\<close>

text \<open>The attributes \<^verbatim>\<open>__init__\<close> sets on the hook.\<close>

record hook =
  torchscript_folder :: string
  use_trace :: pyval
  trace_strict :: pyval
  device :: pyval

text \<open>
  The model. An optional attribute is \<open>None\<close> where \<^verbatim>\<open>hasattr\<close> answers false.
  \<open>training\<close> is the training/evaluation mode flag of the module; \<open>module\<close> identifies
  the network itself, which the hook never inspects.
\<close>

record model =
  input_shape :: "pyval option"
  input_key :: "pyval option"
  training :: bool
  module :: nat

datatype tensor = Tensor nat

datatype program = Program nat

text \<open>A path of the storage backend names a directory or a file; a file opened for
  writing holds no artifact until the serializer has finished.\<close>

datatype node = Dir | File "program option"

subsection \<open>Events and interpreter state\<close>

datatype event =
    LogWarning string
  | LogInfo string
  | PathExists string
  | PathOpen string string
  | HandleClose string
  | GetModelDummyInput model pyval pyval
  | JitTrace model tensor pyval bool
  | JitScript model bool
  | ProgramTo program pyval
  | JitSave program string
  | EnterEvalModel
  | ExitEvalModel
  | EnterNoGrad
  | ExitNoGrad

text \<open>
  \<open>self\<close> is the hook object, \<open>base_model\<close> the model object of the task
  (\<^verbatim>\<open>task.base_model\<close>); \<^verbatim>\<open>self\<close> and \<^verbatim>\<open>model\<close> in the source are references to
  them. \<open>grad_enabled\<close> is the gradient mode of torch, \<open>fs\<close> the storage backend,
  \<open>handles\<close> the paths of the open handles, \<open>events\<close> the calls made so far.
  \<open>JitTrace\<close> and \<open>JitScript\<close> record the model (with its mode) and the gradient
  mode at the moment of the call.
\<close>

record pystate =
  self :: hook
  base_model :: model
  grad_enabled :: bool
  fs :: "string \<Rightarrow> node option"
  handles :: "string list"
  events :: "event list"

definition emit :: "event \<Rightarrow> pystate \<Rightarrow> pystate" where
  "emit ev s = s\<lparr>events := events s @ [ev]\<rparr>"

subsection \<open>External collaborators\<close>

text \<open>
  The answers of the collaborators. \<open>is_primary\<close> is the rank query of
  \<^verbatim>\<open>distributed_util\<close>; \<open>get_model_dummy_input\<close> takes the model, the shape and the
  key; \<open>jit_trace\<close> takes the model, the gradient mode, the input and the strictness
  flag; \<open>jit_script\<close> the model and the gradient mode; \<open>program_to\<close> the program and
  the device; \<open>pathmgr_open\<close> the storage, the path and the mode; \<open>jit_save\<close> the
  storage, the program and the path of the handle. A call either raises (\<open>Inl\<close>, or
  \<open>Some\<close> where nothing is returned) or returns.
\<close>

record env =
  is_primary :: bool
  get_model_dummy_input :: "model \<Rightarrow> pyval \<Rightarrow> pyval \<Rightarrow> exn + tensor"
  jit_trace :: "model \<Rightarrow> bool \<Rightarrow> tensor \<Rightarrow> pyval \<Rightarrow> exn + program"
  jit_script :: "model \<Rightarrow> bool \<Rightarrow> exn + program"
  program_to :: "program \<Rightarrow> pyval \<Rightarrow> exn + program"
  pathmgr_open :: "(string \<Rightarrow> node option) \<Rightarrow> string \<Rightarrow> string \<Rightarrow> exn option"
  jit_save :: "(string \<Rightarrow> node option) \<Rightarrow> program \<Rightarrow> string \<Rightarrow> exn option"

text \<open>\<^verbatim>\<open>g_pathmgr.exists(path)\<close>\<close>

definition pathmgr_exists :: "pystate \<Rightarrow> string \<Rightarrow> bool" where
  "pathmgr_exists s p = (fs s p \<noteq> None)"

subsection \<open>Context managers\<close>

text \<open>
  The two context manager objects the source creates: \<^verbatim>\<open>eval_model(model)\<close> and
  \<^verbatim>\<open>torch.no_grad()\<close>. Creating one has no effect; entering and leaving it has.
\<close>

datatype ctx = EvalModelCM | NoGradCM

text \<open>
  Modelled from the spec: \<^verbatim>\<open>eval_model\<close> of \<^verbatim>\<open>classy_vision.generic.util\<close> is not among
  the sources. Entering it puts the model into evaluation mode, leaving it restores the
  mode the model had on entry, on every exit path. \<^verbatim>\<open>torch.no_grad()\<close> does the same
  with the gradient mode. \<open>cm_enter\<close> returns the value to restore.
\<close>

fun cm_enter :: "ctx \<Rightarrow> pystate \<Rightarrow> bool \<times> pystate" where
  "cm_enter EvalModelCM s =
     (training (base_model s),
      emit EnterEvalModel (s\<lparr>base_model := (base_model s)\<lparr>training := False\<rparr>\<rparr>))"
| "cm_enter NoGradCM s =
     (grad_enabled s, emit EnterNoGrad (s\<lparr>grad_enabled := False\<rparr>))"

fun cm_exit :: "ctx \<Rightarrow> bool \<Rightarrow> pystate \<Rightarrow> pystate" where
  "cm_exit EvalModelCM old s =
     emit ExitEvalModel (s\<lparr>base_model := (base_model s)\<lparr>training := old\<rparr>\<rparr>)"
| "cm_exit NoGradCM old s = emit ExitNoGrad (s\<lparr>grad_enabled := old\<rparr>)"

text \<open>
  Neither object defines \<^verbatim>\<open>__bool__\<close> or \<^verbatim>\<open>__len__\<close>, so both are true in a boolean
  context.
\<close>

fun cm_truthy :: "ctx \<Rightarrow> bool" where
  "cm_truthy c = True"

text \<open>Python's \<^verbatim>\<open>a and b\<close>: the first operand when it is false, else the second.\<close>

definition py_and :: "ctx \<Rightarrow> ctx \<Rightarrow> ctx" where
  "py_and a b = (if cm_truthy a then b else a)"

text \<open>
  \<^verbatim>\<open>with c: body\<close>. The manager is entered, the body runs, and the manager is left
  whether the body returned or raised; neither manager swallows an exception.
\<close>

definition with_cm ::
  "ctx \<Rightarrow> (pystate \<Rightarrow> (exn + 'a) \<times> pystate) \<Rightarrow> pystate \<Rightarrow> (exn + 'a) \<times> pystate" where
  "with_cm c body s =
     (case cm_enter c s of (saved, s1) \<Rightarrow>
        (case body s1 of (r, s2) \<Rightarrow> (r, cm_exit c saved s2)))"

subsection \<open>The hook\<close>

definition TORCHSCRIPT_FILE :: string where
  "TORCHSCRIPT_FILE = ''torchscript.pt''"

text \<open>
  \<^verbatim>\<open>__init__(self, torchscript_folder, use_trace=True, trace_strict=True, device="cpu")\<close>.
  An optional argument the caller leaves out is \<open>None\<close>.
\<close>

definition init :: "pyval \<Rightarrow> pyval option \<Rightarrow> pyval option \<Rightarrow> pyval option \<Rightarrow> exn + hook" where
  "init folder_arg use_trace_arg trace_strict_arg device_arg =
     (case folder_arg of
        PyStr folder \<Rightarrow>
          Inr \<lparr> torchscript_folder = folder,
                use_trace = (case use_trace_arg of None \<Rightarrow> PyBool True | Some v \<Rightarrow> v),
                trace_strict = (case trace_strict_arg of None \<Rightarrow> PyBool True | Some v \<Rightarrow> v),
                device = (case device_arg of None \<Rightarrow> PyStr ''cpu'' | Some v \<Rightarrow> v) \<rparr>
      | _ \<Rightarrow>
          Inl (AssertionError
            ''torchscript_folder must be a string specifying the torchscript directory''))"

text \<open>
  Modelled from the spec: \<^verbatim>\<open>ClassyHook._noop\<close>, which \<^verbatim>\<open>on_phase_start\<close>,
  \<^verbatim>\<open>on_phase_end\<close> and \<^verbatim>\<open>on_step\<close> are bound to, is not among the sources; the spec
  says the three callbacks are no-ops.
\<close>

definition noop :: "env \<Rightarrow> pystate \<Rightarrow> (exn + unit) \<times> pystate" where
  "noop e s = (Inr (), s)"

definition on_phase_start :: "env \<Rightarrow> pystate \<Rightarrow> (exn + unit) \<times> pystate" where
  "on_phase_start = noop"

definition on_phase_end :: "env \<Rightarrow> pystate \<Rightarrow> (exn + unit) \<times> pystate" where
  "on_phase_end = noop"

definition on_step :: "env \<Rightarrow> pystate \<Rightarrow> (exn + unit) \<times> pystate" where
  "on_step = noop"

text \<open>
  \<^verbatim>\<open>model.input_shape if hasattr(model, "input_shape") else None\<close> and
  \<^verbatim>\<open>model.input_key if hasattr(model, "input_key") else None\<close>
\<close>

definition shape_of :: "model \<Rightarrow> pyval" where
  "shape_of m = (case input_shape m of Some v \<Rightarrow> v | None \<Rightarrow> PyNone)"

definition key_of :: "model \<Rightarrow> pyval" where
  "key_of m = (case input_key m of Some k \<Rightarrow> k | None \<Rightarrow> PyNone)"

text \<open>The two adjacent string literals of the warning, which Python concatenates.\<close>

definition warning_message :: string where
  "warning_message =
     ''This model doesn't implement input_shape.'' @ ''Cannot save torchscripted model.''"

text \<open>
  \<^verbatim>\<open>torchscript_using_trace\<close>. The result is \<open>None\<close> where the source returns without a
  value. The \<^verbatim>\<open>with\<close> statement is given the value of
  \<^verbatim>\<open>eval_model(model) and torch.no_grad()\<close>.
\<close>

definition torchscript_using_trace :: "env \<Rightarrow> pystate \<Rightarrow> (exn + program option) \<times> pystate" where
  "torchscript_using_trace e s =
     (let shape = shape_of (base_model s) in
      if \<not> truthy shape then (Inr None, emit (LogWarning warning_message) s)
      else
        let key = key_of (base_model s);
            s1 = emit (GetModelDummyInput (base_model s) shape key) s
        in case get_model_dummy_input e (base_model s) shape key of
             Inl x \<Rightarrow> (Inl x, s1)
           | Inr input_data \<Rightarrow>
               (case with_cm (py_and EvalModelCM NoGradCM)
                       (\<lambda>t. (jit_trace e (base_model t) (grad_enabled t) input_data
                                 (trace_strict (self t)),
                              emit (JitTrace (base_model t) input_data
                                      (trace_strict (self t)) (grad_enabled t)) t))
                       s1 of
                  (Inl x, s2) \<Rightarrow> (Inl x, s2)
                | (Inr torchscript, s2) \<Rightarrow> (Inr (Some torchscript), s2)))"

text \<open>\<^verbatim>\<open>torchscript_using_script\<close>\<close>

definition torchscript_using_script :: "env \<Rightarrow> pystate \<Rightarrow> (exn + program option) \<times> pystate" where
  "torchscript_using_script e s =
     (case with_cm (py_and EvalModelCM NoGradCM)
             (\<lambda>t. (jit_script e (base_model t) (grad_enabled t),
                    emit (JitScript (base_model t) (grad_enabled t)) t))
             s of
        (Inl x, s1) \<Rightarrow> (Inl x, s1)
      | (Inr torchscript, s1) \<Rightarrow> (Inr (Some torchscript), s1))"

text \<open>
  \<^verbatim>\<open>with g_pathmgr.open(name, "wb") as f: torch.jit.save(torchscript, f)\<close>. Opening for
  writing creates or truncates the file; the handle is closed when the block is left.
\<close>

definition open_and_save :: "env \<Rightarrow> string \<Rightarrow> program \<Rightarrow> pystate \<Rightarrow> (exn + unit) \<times> pystate" where
  "open_and_save e name torchscript s =
     (let s1 = emit (PathOpen name ''wb'') s in
      case pathmgr_open e (fs s1) name ''wb'' of
        Some x \<Rightarrow> (Inl x, s1)
      | None \<Rightarrow>
          let s2 = s1\<lparr>fs := (fs s1)(name \<mapsto> File None), handles := name # handles s1\<rparr>;
              s3 = emit (JitSave torchscript name) s2;
              (r, s4) = (case jit_save e (fs s3) torchscript name of
                           Some x \<Rightarrow> (Inl x, s3)
                         | None \<Rightarrow> (Inr (), s3\<lparr>fs := (fs s3)(name \<mapsto> File (Some torchscript))\<rparr>))
          in (r, emit (HandleClose name) (s4\<lparr>handles := remove1 name (handles s4)\<rparr>)))"

text \<open>\<^verbatim>\<open>"Saving torchscript to '{}'...".format(self.torchscript_folder)\<close>\<close>

definition saving_message :: "hook \<Rightarrow> string" where
  "saving_message h =
     ''Saving torchscript to '' @ [CHR 0x27] @ torchscript_folder h @ [CHR 0x27] @ ''...''"

text \<open>\<^verbatim>\<open>f"{self.torchscript_folder}/{TORCHSCRIPT_FILE}"\<close>\<close>

definition torchscript_name :: "hook \<Rightarrow> string" where
  "torchscript_name h = torchscript_folder h @ ''/'' @ TORCHSCRIPT_FILE"

text \<open>The message of the \<open>AttributeError\<close> that an attribute lookup on \<^verbatim>\<open>None\<close> raises.\<close>

definition none_type_message :: string where
  "none_type_message =
     [CHR 0x27] @ ''NoneType'' @ [CHR 0x27] @ '' object has no attribute ''
     @ [CHR 0x27] @ ''to'' @ [CHR 0x27]"

text \<open>
  \<^verbatim>\<open>save_torchscript\<close>. \<^verbatim>\<open>torchscript.to(self.device)\<close> is an attribute lookup on the
  value the export returned: on \<^verbatim>\<open>None\<close> it raises \<open>AttributeError\<close>.
\<close>

definition save_torchscript :: "env \<Rightarrow> pystate \<Rightarrow> (exn + unit) \<times> pystate" where
  "save_torchscript e s =
     (case (if truthy (use_trace (self s)) then torchscript_using_trace e s
            else torchscript_using_script e s) of
        (Inl x, s1) \<Rightarrow> (Inl x, s1)
      | (Inr torchscript, s1) \<Rightarrow>
          (let s2 = emit (LogInfo (saving_message (self s1))) s1
           in (case torchscript of
                 None \<Rightarrow> (Inl (AttributeError none_type_message), s2)
               | Some p \<Rightarrow>
                   (let s3 = emit (ProgramTo p (device (self s2))) s2
                    in (case program_to e p (device (self s2)) of
                          Inl x \<Rightarrow> (Inl x, s3)
                        | Inr p' \<Rightarrow> open_and_save e (torchscript_name (self s3)) p' s3)))))"

text \<open>\<^verbatim>\<open>"Torchscript folder '{}' does not exist.".format(self.torchscript_folder)\<close>\<close>

definition err_msg :: "hook \<Rightarrow> string" where
  "err_msg h =
     ''Torchscript folder '' @ [CHR 0x27] @ torchscript_folder h @ [CHR 0x27]
     @ '' does not exist.''"

text \<open>\<^verbatim>\<open>on_start\<close>\<close>

definition on_start :: "env \<Rightarrow> pystate \<Rightarrow> (exn + unit) \<times> pystate" where
  "on_start e s =
     (if \<not> is_primary e then (Inr (), s)
      else
        let s1 = emit (PathExists (torchscript_folder (self s))) s in
        if \<not> pathmgr_exists s (torchscript_folder (self s)) then
          (Inl (FileNotFoundError (err_msg (self s))), s1)
        else (Inr (), s1))"

text \<open>\<^verbatim>\<open>on_end\<close>\<close>

definition on_end :: "env \<Rightarrow> pystate \<Rightarrow> (exn + unit) \<times> pystate" where
  "on_end e s = (if \<not> is_primary e then (Inr (), s) else save_torchscript e s)"

subsection \<open>Observations and example inputs\<close>

text \<open>The events a run has added to the log of the state it started in.\<close>

definition new_events :: "pystate \<Rightarrow> pystate \<Rightarrow> event list" where
  "new_events s s' = drop (length (events s)) (events s')"

text \<open>
  The export that \<^verbatim>\<open>save_torchscript\<close> selects with \<^verbatim>\<open>self.use_trace\<close> (the conditional
  expression of its first statement).
\<close>

abbreviation export :: "env \<Rightarrow> pystate \<Rightarrow> (exn + program option) \<times> pystate" where
  "export e s \<equiv>
     (if truthy (use_trace (self s)) then torchscript_using_trace e s
      else torchscript_using_script e s)"

text \<open>A hook built with the defaults, a model in training mode with the shape
  \<open>(1, 3, 224, 224)\<close> and no key, collaborators that all return, and a storage that
  holds the directory \<open>/out\<close>.\<close>

definition example_hook :: hook where
  "example_hook =
     \<lparr> torchscript_folder = ''/out'', use_trace = PyBool True,
       trace_strict = PyBool True, device = PyStr ''cpu'' \<rparr>"

definition example_model :: model where
  "example_model =
     \<lparr> input_shape = Some (PyTuple [PyInt 1, PyInt 3, PyInt 224, PyInt 224]),
       input_key = None, training = True, module = 0 \<rparr>"

definition example_env :: env where
  "example_env =
     \<lparr> is_primary = True,
       get_model_dummy_input = (\<lambda>m shape key. Inr (Tensor 0)),
       jit_trace = (\<lambda>m g x strict. Inr (Program 1)),
       jit_script = (\<lambda>m g. Inr (Program 2)),
       program_to = (\<lambda>p d. case p of Program n \<Rightarrow> Inr (Program (n + 10))),
       pathmgr_open = (\<lambda>f p mode. None),
       jit_save = (\<lambda>f p n. None) \<rparr>"

definition example_state :: pystate where
  "example_state =
     \<lparr> self = example_hook, base_model = example_model, grad_enabled = True,
       fs = [''/out'' \<mapsto> Dir], handles = [], events = [] \<rparr>"

text \<open>A model that declares the key \<open>video\<close>, and a builder whose answer depends on
  the key it is given.\<close>

definition example_keyed_state :: pystate where
  "example_keyed_state =
     example_state\<lparr>base_model := example_model\<lparr>input_key := Some (PyStr ''video'')\<rparr>\<rparr>"

definition example_keyed_env :: env where
  "example_keyed_env =
     example_env\<lparr>get_model_dummy_input :=
       \<lambda>m shape key. Inr (Tensor (if key = PyNone then 0 else 1))\<rparr>"

text \<open>Collaborators of which the builder of the dummy input raises.\<close>

definition example_failing_builder_env :: env where
  "example_failing_builder_env =
     example_env\<lparr>get_model_dummy_input := \<lambda>m shape key. Inl (ExternalError 5)\<rparr>"

text \<open>The state the example is in after a first export.\<close>

definition example_exported :: pystate where
  "example_exported =
     example_state
       \<lparr>fs := [''/out'' \<mapsto> Dir, ''/out/torchscript.pt'' \<mapsto> File (Some (Program 11))],
         events :=
           [GetModelDummyInput example_model
              (PyTuple [PyInt 1, PyInt 3, PyInt 224, PyInt 224]) PyNone,
            EnterNoGrad,
            JitTrace example_model (Tensor 0) (PyBool True) False,
            ExitNoGrad,
            LogInfo (saving_message example_hook),
            ProgramTo (Program 1) (PyStr ''cpu''),
            PathOpen ''/out/torchscript.pt'' ''wb'',
            JitSave (Program 11) ''/out/torchscript.pt'',
            HandleClose ''/out/torchscript.pt'']\<rparr>"

section \<open>Lemmas about the building blocks\<close>

lemma py_and_cms: "py_and EvalModelCM NoGradCM = NoGradCM"
  by (simp add: py_and_def)

lemma with_no_grad:
  "with_cm NoGradCM body s =
     (case body (emit EnterNoGrad (s\<lparr>grad_enabled := False\<rparr>)) of
        (r, s2) \<Rightarrow> (r, emit ExitNoGrad (s2\<lparr>grad_enabled := grad_enabled s\<rparr>)))"
  by (simp add: with_cm_def)

lemma using_trace_falsy:
  "\<not> truthy (shape_of (base_model s)) \<Longrightarrow>
     torchscript_using_trace e s = (Inr None, emit (LogWarning warning_message) s)"
  by (simp add: torchscript_using_trace_def)

lemma using_trace_builder_raises:
  "truthy (shape_of (base_model s)) \<Longrightarrow>
   get_model_dummy_input e (base_model s) (shape_of (base_model s)) (key_of (base_model s)) = Inl x \<Longrightarrow>
     torchscript_using_trace e s =
       (Inl x, emit (GetModelDummyInput (base_model s) (shape_of (base_model s))
                       (key_of (base_model s))) s)"
  by (simp add: torchscript_using_trace_def Let_def)

lemma using_trace_truthy:
  "truthy (shape_of (base_model s)) \<Longrightarrow>
   get_model_dummy_input e (base_model s) (shape_of (base_model s)) (key_of (base_model s)) = Inr x \<Longrightarrow>
     torchscript_using_trace e s =
       (map_sum id Some (jit_trace e (base_model s) False x (trace_strict (self s))),
        s\<lparr>events := events s @
             [GetModelDummyInput (base_model s) (shape_of (base_model s)) (key_of (base_model s)),
              EnterNoGrad,
              JitTrace (base_model s) x (trace_strict (self s)) False,
              ExitNoGrad]\<rparr>)"
  by (simp add: torchscript_using_trace_def Let_def py_and_cms with_no_grad emit_def
        split: sum.splits)

lemma using_script:
  "torchscript_using_script e s =
     (map_sum id Some (jit_script e (base_model s) False),
      s\<lparr>events := events s @ [EnterNoGrad, JitScript (base_model s) False, ExitNoGrad]\<rparr>)"
  by (simp add: torchscript_using_script_def py_and_cms with_no_grad emit_def split: sum.splits)

lemma open_and_save_ok:
  "pathmgr_open e (fs s) name ''wb'' = None \<Longrightarrow>
   jit_save e ((fs s)(name \<mapsto> File None)) p name = None \<Longrightarrow>
     open_and_save e name p s =
       (Inr (), s\<lparr>fs := (fs s)(name \<mapsto> File (Some p)),
                  events := events s @ [PathOpen name ''wb'', JitSave p name, HandleClose name]\<rparr>)"
  by (simp add: open_and_save_def emit_def Let_def)

lemma open_and_save_open_raises:
  "pathmgr_open e (fs s) name ''wb'' = Some x \<Longrightarrow>
     open_and_save e name p s = (Inl x, s\<lparr>events := events s @ [PathOpen name ''wb'']\<rparr>)"
  by (simp add: open_and_save_def emit_def Let_def)

lemma open_and_save_save_raises:
  "pathmgr_open e (fs s) name ''wb'' = None \<Longrightarrow>
   jit_save e ((fs s)(name \<mapsto> File None)) p name = Some x \<Longrightarrow>
     open_and_save e name p s =
       (Inl x, s\<lparr>fs := (fs s)(name \<mapsto> File None),
                  events := events s @ [PathOpen name ''wb'', JitSave p name, HandleClose name]\<rparr>)"
  by (simp add: open_and_save_def emit_def Let_def)

lemma open_and_save_handles: "handles (snd (open_and_save e name p s)) = handles s"
  by (simp add: open_and_save_def emit_def Let_def split: option.splits)

lemma open_and_save_self: "self (snd (open_and_save e name p s)) = self s"
  by (simp add: open_and_save_def emit_def Let_def split: option.splits)

text \<open>The export reads the hook and the model only, and only appends to the log.\<close>

lemma export_shape:
  "\<exists>r evs. \<forall>t. self t = self s \<longrightarrow> base_model t = base_model s \<longrightarrow>
      export e t = (r, t\<lparr>events := events t @ evs\<rparr>)"
proof (cases "truthy (use_trace (self s))")
  case False
  then show ?thesis by (auto simp: using_script)
next
  case ut: True
  show ?thesis
  proof (cases "truthy (shape_of (base_model s))")
    case False
    with ut show ?thesis by (auto simp: using_trace_falsy emit_def)
  next
    case sh: True
    show ?thesis
    proof (cases "get_model_dummy_input e (base_model s) (shape_of (base_model s))
                    (key_of (base_model s))")
      case (Inl x)
      with ut sh show ?thesis by (auto simp: using_trace_builder_raises emit_def)
    next
      case (Inr x)
      with ut sh show ?thesis by (auto simp: using_trace_truthy)
    qed
  qed
qed

lemma export_frame:
  assumes "export e s = (r, s1)"
  shows "self s1 = self s \<and> base_model s1 = base_model s \<and> fs s1 = fs s
         \<and> handles s1 = handles s \<and> grad_enabled s1 = grad_enabled s"
proof -
  obtain r' evs where "export e s = (r', s\<lparr>events := events s @ evs\<rparr>)"
    using export_shape [of s e] by blast
  with assms have "s1 = s\<lparr>events := events s @ evs\<rparr>" by simp
  then show ?thesis by simp
qed

lemma save_torchscript_export_raises:
  "export e s = (Inl x, s1) \<Longrightarrow> save_torchscript e s = (Inl x, s1)"
  by (simp add: save_torchscript_def)

lemma save_torchscript_none:
  assumes "export e s = (Inr None, s1)"
  shows "save_torchscript e s =
           (Inl (AttributeError none_type_message), emit (LogInfo (saving_message (self s))) s1)"
proof -
  have "self s1 = self s" using export_frame [OF assms] by simp
  with assms show ?thesis by (simp add: save_torchscript_def Let_def emit_def)
qed

lemma save_torchscript_some:
  assumes "export e s = (Inr (Some p), s1)"
  shows "save_torchscript e s =
     (case program_to e p (device (self s)) of
        Inl x \<Rightarrow> (Inl x, s1\<lparr>events := events s1 @
                     [LogInfo (saving_message (self s)), ProgramTo p (device (self s))]\<rparr>)
      | Inr p' \<Rightarrow> open_and_save e (torchscript_name (self s)) p'
           (s1\<lparr>events := events s1 @
                     [LogInfo (saving_message (self s)), ProgramTo p (device (self s))]\<rparr>))"
proof -
  have "self s1 = self s" using export_frame [OF assms] by simp
  with assms show ?thesis
    by (simp add: save_torchscript_def emit_def Let_def split: sum.splits)
qed

lemma save_torchscript_frame:
  "self (snd (save_torchscript e s)) = self s \<and> handles (snd (save_torchscript e s)) = handles s"
proof -
  obtain r s1 where ex: "export e s = (r, s1)" by (cases "export e s")
  note fr = export_frame [OF ex]
  show ?thesis
  proof (cases r)
    case (Inl x)
    with ex fr show ?thesis by (simp add: save_torchscript_export_raises)
  next
    case (Inr o1)
    show ?thesis
    proof (cases o1)
      case None
      with ex Inr fr show ?thesis by (simp add: save_torchscript_none emit_def)
    next
      case (Some p)
      with ex Inr fr show ?thesis
        by (simp add: save_torchscript_some open_and_save_handles open_and_save_self
              split: sum.splits)
    qed
  qed
qed

lemmas ex_defs = example_env_def example_state_def example_hook_def example_model_def

section \<open>The claims\<close>

text \<open>
  A run of \<^verbatim>\<open>on_end\<close> on the designated writer with the trace strategy and a model
  whose shape is absent or false: the warning and the info line are logged, nothing is
  opened or written, and the attribute lookup on \<^verbatim>\<open>None\<close> raises.
\<close>

lemma on_end_trace_without_shape:
  assumes "is_primary e" "truthy (use_trace (self s))" "\<not> truthy (shape_of (base_model s))"
  shows "on_end e s =
           (Inl (AttributeError none_type_message),
            s\<lparr>events := events s @ [LogWarning warning_message, LogInfo (saving_message (self s))]\<rparr>)"
proof -
  have "export e s = (Inr None, emit (LogWarning warning_message) s)"
    using assms by (simp add: using_trace_falsy)
  from save_torchscript_none [OF this] assms(1) show ?thesis
    by (simp add: on_end_def emit_def)
qed

text \<open>
  C1 (the claim: with \<open>useTrace=true\<close> and a model without an input shape, on-run-end
  on the designated writer logs a warning, raises no exception and writes no file).
  At the example hook and a model without \<^verbatim>\<open>input_shape\<close>, \<^verbatim>\<open>on_end\<close> logs the
  warning and writes no file, but it raises \<open>AttributeError\<close>:
  \<^verbatim>\<open>torchscript_using_trace\<close> returns \<^verbatim>\<open>None\<close> and \<^verbatim>\<open>save_torchscript\<close> calls
  \<^verbatim>\<open>.to\<close> on it.
\<close>

theorem on_end_without_input_shape_raises:
  "on_end example_env (example_state\<lparr>base_model := example_model\<lparr>input_shape := None\<rparr>\<rparr>) =
     (Inl (AttributeError none_type_message),
      example_state\<lparr>base_model := example_model\<lparr>input_shape := None\<rparr>,
         events := [LogWarning warning_message, LogInfo (saving_message example_hook)]\<rparr>)"
  using on_end_trace_without_shape
    [of example_env "example_state\<lparr>base_model := example_model\<lparr>input_shape := None\<rparr>\<rparr>"]
  by (simp add: ex_defs shape_of_def)

text \<open>
  C2 (the claim: under both strategies the model is in evaluation mode and gradient
  tracking is disabled while the tracer or scripter runs, and the prior mode is
  restored on every exit path). On a model in training mode, the calls of the tracer
  and of the scripter receive the model still in training mode: the \<^verbatim>\<open>with\<close>
  statement enters \<^verbatim>\<open>torch.no_grad()\<close> only, the value of
  \<^verbatim>\<open>eval_model(model) and torch.no_grad()\<close>, and \<^verbatim>\<open>eval_model(model)\<close> is never
  entered. Gradient tracking is disabled during the call.
\<close>

theorem export_leaves_model_in_training_mode:
  "training example_model \<and>
   new_events example_state (snd (torchscript_using_trace example_env example_state)) =
     [GetModelDummyInput example_model (PyTuple [PyInt 1, PyInt 3, PyInt 224, PyInt 224]) PyNone,
      EnterNoGrad,
      JitTrace example_model (Tensor 0) (PyBool True) False,
      ExitNoGrad] \<and>
   new_events example_state (snd (torchscript_using_script example_env example_state)) =
     [EnterNoGrad, JitScript example_model False, ExitNoGrad]"
  by (simp add: using_script using_trace_truthy new_events_def ex_defs shape_of_def key_of_def)

text \<open>
  C3: on a process that is not the designated writer, \<^verbatim>\<open>on_start\<close> and \<^verbatim>\<open>on_end\<close>
  return at once, without error and with the state as it was: no event is logged (no
  existence query, no open, no write), and the storage is not touched, whatever the
  hook, the model and the storage are.
\<close>

theorem non_primary_returns_immediately:
  assumes "\<not> is_primary e"
  shows "on_start e s = (Inr (), s) \<and> on_end e s = (Inr (), s)"
  using assms by (simp add: on_start_def on_end_def)

theorem non_primary_returns_immediately_witness:
  "\<not> is_primary (example_env\<lparr>is_primary := False\<rparr>) \<and>
   on_start (example_env\<lparr>is_primary := False\<rparr>) (example_state\<lparr>fs := Map.empty\<rparr>) =
     (Inr (), example_state\<lparr>fs := Map.empty\<rparr>) \<and>
   on_end (example_env\<lparr>is_primary := False\<rparr>) (example_state\<lparr>fs := Map.empty\<rparr>) =
     (Inr (), example_state\<lparr>fs := Map.empty\<rparr>)"
  using non_primary_returns_immediately
    [of "example_env\<lparr>is_primary := False\<rparr>" "example_state\<lparr>fs := Map.empty\<rparr>"]
  by (simp add: example_env_def)

text \<open>
  C4: on the designated writer, \<^verbatim>\<open>on_start\<close> raises \<open>FileNotFoundError\<close> when the
  configured folder does not exist, with a message that contains the folder; when the
  folder exists it returns without error. In both cases its only action is the
  existence query: the storage and the open handles are unchanged.
\<close>

theorem on_start_requires_folder:
  assumes "is_primary e"
  shows "(\<not> pathmgr_exists s (torchscript_folder (self s)) \<longrightarrow>
            on_start e s = (Inl (FileNotFoundError (err_msg (self s))),
                            emit (PathExists (torchscript_folder (self s))) s)
            \<and> sublist (torchscript_folder (self s)) (err_msg (self s)))
       \<and> (pathmgr_exists s (torchscript_folder (self s)) \<longrightarrow>
            on_start e s = (Inr (), emit (PathExists (torchscript_folder (self s))) s))
       \<and> fs (snd (on_start e s)) = fs s \<and> handles (snd (on_start e s)) = handles s"
proof -
  have "sublist (torchscript_folder (self s)) (err_msg (self s))"
    unfolding err_msg_def sublist_def
    by (intro exI [of _ "''Torchscript folder '' @ [CHR 0x27]"]
          exI [of _ "[CHR 0x27] @ '' does not exist.''"]) simp
  with assms show ?thesis
    by (simp add: on_start_def Let_def emit_def)
qed

theorem on_start_requires_folder_witness:
  "is_primary example_env \<and>
   \<not> pathmgr_exists (example_state\<lparr>fs := Map.empty\<rparr>) ''/out'' \<and>
   fst (on_start example_env (example_state\<lparr>fs := Map.empty\<rparr>)) =
     Inl (FileNotFoundError ''Torchscript folder '/out' does not exist.'') \<and>
   pathmgr_exists example_state ''/out'' \<and>
   on_start example_env example_state = (Inr (), example_state\<lparr>events := [PathExists ''/out'']\<rparr>)"
  using on_start_requires_folder [of example_env "example_state\<lparr>fs := Map.empty\<rparr>"]
    on_start_requires_folder [of example_env example_state]
  by (simp add: ex_defs pathmgr_exists_def err_msg_def emit_def)

text \<open>
  C5: with the trace strategy and a model whose \<^verbatim>\<open>input_shape\<close> is true, on the
  designated writer and with collaborators that return, \<^verbatim>\<open>on_end\<close> builds one dummy
  input from the shape and the key, where the key is the \<^verbatim>\<open>input_key\<close> of the model
  when it declares one and \<^verbatim>\<open>None\<close> otherwise; it calls the tracer with
  \<^verbatim>\<open>strict=self.trace_strict\<close>, moves the program to \<^verbatim>\<open>self.device\<close>, opens
  \<^verbatim>\<open>{torchscript_folder}/torchscript.pt\<close> in mode \<^verbatim>\<open>wb\<close>, saves the moved program
  there and closes the handle. No other path of the storage changes.
\<close>

theorem on_end_trace_writes_artifact:
  assumes "is_primary e" and "truthy (use_trace (self s))"
    and "input_shape (base_model s) = Some shape" and "truthy shape"
    and "key = (case input_key (base_model s) of Some k \<Rightarrow> k | None \<Rightarrow> PyNone)"
    and "get_model_dummy_input e (base_model s) shape key = Inr x"
    and "jit_trace e (base_model s) False x (trace_strict (self s)) = Inr p"
    and "program_to e p (device (self s)) = Inr p'"
    and "pathmgr_open e (fs s) (torchscript_name (self s)) ''wb'' = None"
    and "jit_save e ((fs s)(torchscript_name (self s) \<mapsto> File None)) p'
           (torchscript_name (self s)) = None"
  shows "on_end e s =
           (Inr (),
            s\<lparr>fs := (fs s)(torchscript_name (self s) \<mapsto> File (Some p')),
              events := events s @
                [GetModelDummyInput (base_model s) shape key,
                 EnterNoGrad,
                 JitTrace (base_model s) x (trace_strict (self s)) False,
                 ExitNoGrad,
                 LogInfo (saving_message (self s)),
                 ProgramTo p (device (self s)),
                 PathOpen (torchscript_name (self s)) ''wb'',
                 JitSave p' (torchscript_name (self s)),
                 HandleClose (torchscript_name (self s))]\<rparr>)
         \<and> torchscript_name (self s) = torchscript_folder (self s) @ ''/torchscript.pt''
         \<and> key_of (base_model s) = key"
proof -
  have sh: "shape_of (base_model s) = shape" using assms(3) by (simp add: shape_of_def)
  have ky: "key_of (base_model s) = key" using assms(5) by (simp add: key_of_def)
  have "export e s =
          (Inr (Some p),
           s\<lparr>events := events s @
             [GetModelDummyInput (base_model s) shape key,
              EnterNoGrad, JitTrace (base_model s) x (trace_strict (self s)) False,
              ExitNoGrad]\<rparr>)"
    using assms(2,4,6,7) sh ky using_trace_truthy [of s e x] by simp
  from save_torchscript_some [OF this] assms(1,8,9,10) ky show ?thesis
    by (simp add: on_end_def open_and_save_ok torchscript_name_def TORCHSCRIPT_FILE_def)
qed

theorem on_end_trace_writes_artifact_witness:
  "(is_primary example_env \<and> truthy (use_trace (self example_state)) \<and>
     input_shape (base_model example_state)
       = Some (PyTuple [PyInt 1, PyInt 3, PyInt 224, PyInt 224]) \<and>
     truthy (PyTuple [PyInt 1, PyInt 3, PyInt 224, PyInt 224]) \<and>
     input_key (base_model example_state) = None \<and>
     fst (on_end example_env example_state) = Inr () \<and>
     fs (snd (on_end example_env example_state)) =
       [''/out'' \<mapsto> Dir, ''/out/torchscript.pt'' \<mapsto> File (Some (Program 11))] \<and>
     events (snd (on_end example_env example_state)) =
       [GetModelDummyInput example_model (PyTuple [PyInt 1, PyInt 3, PyInt 224, PyInt 224])
          PyNone,
        EnterNoGrad,
        JitTrace example_model (Tensor 0) (PyBool True) False,
        ExitNoGrad,
        LogInfo ''Saving torchscript to '/out'...'',
        ProgramTo (Program 1) (PyStr ''cpu''),
        PathOpen ''/out/torchscript.pt'' ''wb'',
        JitSave (Program 11) ''/out/torchscript.pt'',
        HandleClose ''/out/torchscript.pt''])
   \<and> (input_key (base_model example_keyed_state) = Some (PyStr ''video'') \<and>
     fst (on_end example_keyed_env example_keyed_state) = Inr () \<and>
     fs (snd (on_end example_keyed_env example_keyed_state)) =
       [''/out'' \<mapsto> Dir, ''/out/torchscript.pt'' \<mapsto> File (Some (Program 11))] \<and>
     events (snd (on_end example_keyed_env example_keyed_state)) =
       [GetModelDummyInput (example_model\<lparr>input_key := Some (PyStr ''video'')\<rparr>)
          (PyTuple [PyInt 1, PyInt 3, PyInt 224, PyInt 224]) (PyStr ''video''),
        EnterNoGrad,
        JitTrace (example_model\<lparr>input_key := Some (PyStr ''video'')\<rparr>) (Tensor 1)
          (PyBool True) False,
        ExitNoGrad,
        LogInfo ''Saving torchscript to '/out'...'',
        ProgramTo (Program 1) (PyStr ''cpu''),
        PathOpen ''/out/torchscript.pt'' ''wb'',
        JitSave (Program 11) ''/out/torchscript.pt'',
        HandleClose ''/out/torchscript.pt''])"
proof (rule conjI)
  show "is_primary example_env \<and> truthy (use_trace (self example_state)) \<and>
     input_shape (base_model example_state)
       = Some (PyTuple [PyInt 1, PyInt 3, PyInt 224, PyInt 224]) \<and>
     truthy (PyTuple [PyInt 1, PyInt 3, PyInt 224, PyInt 224]) \<and>
     input_key (base_model example_state) = None \<and>
     fst (on_end example_env example_state) = Inr () \<and>
     fs (snd (on_end example_env example_state)) =
       [''/out'' \<mapsto> Dir, ''/out/torchscript.pt'' \<mapsto> File (Some (Program 11))] \<and>
     events (snd (on_end example_env example_state)) =
       [GetModelDummyInput example_model (PyTuple [PyInt 1, PyInt 3, PyInt 224, PyInt 224])
          PyNone,
        EnterNoGrad,
        JitTrace example_model (Tensor 0) (PyBool True) False,
        ExitNoGrad,
        LogInfo ''Saving torchscript to '/out'...'',
        ProgramTo (Program 1) (PyStr ''cpu''),
        PathOpen ''/out/torchscript.pt'' ''wb'',
        JitSave (Program 11) ''/out/torchscript.pt'',
        HandleClose ''/out/torchscript.pt'']"
    using on_end_trace_writes_artifact
      [of example_env example_state "PyTuple [PyInt 1, PyInt 3, PyInt 224, PyInt 224]"
          PyNone "Tensor 0" "Program 1" "Program 11"]
    by (simp add: ex_defs torchscript_name_def TORCHSCRIPT_FILE_def saving_message_def)
next
  let ?shape = "PyTuple [PyInt 1, PyInt 3, PyInt 224, PyInt 224]"
  note kdefs = example_keyed_env_def example_keyed_state_def ex_defs
  have k1: "is_primary example_keyed_env" by (simp add: kdefs)
  have k2: "truthy (use_trace (self example_keyed_state))" by (simp add: kdefs)
  have k3: "input_shape (base_model example_keyed_state) = Some ?shape" by (simp add: kdefs)
  have k4: "truthy ?shape" by simp
  have k5: "PyStr ''video'' =
      (case input_key (base_model example_keyed_state) of Some k \<Rightarrow> k | None \<Rightarrow> PyNone)"
    by (simp add: kdefs)
  have k6: "get_model_dummy_input example_keyed_env (base_model example_keyed_state) ?shape
      (PyStr ''video'') = Inr (Tensor 1)"
    by (simp add: kdefs)
  have k7: "jit_trace example_keyed_env (base_model example_keyed_state) False (Tensor 1)
      (trace_strict (self example_keyed_state)) = Inr (Program 1)"
    by (simp add: kdefs)
  have k8: "program_to example_keyed_env (Program 1) (device (self example_keyed_state))
      = Inr (Program 11)"
    by (simp add: kdefs)
  have k9: "pathmgr_open example_keyed_env (fs example_keyed_state)
      (torchscript_name (self example_keyed_state)) ''wb'' = None"
    by (simp add: kdefs)
  have k10: "jit_save example_keyed_env
      ((fs example_keyed_state)(torchscript_name (self example_keyed_state) \<mapsto> File None))
      (Program 11) (torchscript_name (self example_keyed_state)) = None"
    by (simp add: kdefs)
  note run = on_end_trace_writes_artifact [OF k1 k2 k3 k4 k5 k6 k7 k8 k9 k10]
  have c1: "input_key (base_model example_keyed_state) = Some (PyStr ''video'')"
    by (simp add: kdefs)
  have c2: "fst (on_end example_keyed_env example_keyed_state) = Inr ()"
    using run by simp
  have c3: "fs (snd (on_end example_keyed_env example_keyed_state)) =
      [''/out'' \<mapsto> Dir, ''/out/torchscript.pt'' \<mapsto> File (Some (Program 11))]"
    using run
    by (simp add: example_keyed_state_def ex_defs torchscript_name_def TORCHSCRIPT_FILE_def)
  have c4: "events (snd (on_end example_keyed_env example_keyed_state)) =
      [GetModelDummyInput (example_model\<lparr>input_key := Some (PyStr ''video'')\<rparr>)
         (PyTuple [PyInt 1, PyInt 3, PyInt 224, PyInt 224]) (PyStr ''video''),
       EnterNoGrad,
       JitTrace (example_model\<lparr>input_key := Some (PyStr ''video'')\<rparr>) (Tensor 1)
         (PyBool True) False,
       ExitNoGrad,
       LogInfo ''Saving torchscript to '/out'...'',
       ProgramTo (Program 1) (PyStr ''cpu''),
       PathOpen ''/out/torchscript.pt'' ''wb'',
       JitSave (Program 11) ''/out/torchscript.pt'',
       HandleClose ''/out/torchscript.pt'']"
    using run
    by (simp add: example_keyed_state_def ex_defs torchscript_name_def TORCHSCRIPT_FILE_def
          saving_message_def)
  show "input_key (base_model example_keyed_state) = Some (PyStr ''video'') \<and>
     fst (on_end example_keyed_env example_keyed_state) = Inr () \<and>
     fs (snd (on_end example_keyed_env example_keyed_state)) =
       [''/out'' \<mapsto> Dir, ''/out/torchscript.pt'' \<mapsto> File (Some (Program 11))] \<and>
     events (snd (on_end example_keyed_env example_keyed_state)) =
       [GetModelDummyInput (example_model\<lparr>input_key := Some (PyStr ''video'')\<rparr>)
          (PyTuple [PyInt 1, PyInt 3, PyInt 224, PyInt 224]) (PyStr ''video''),
        EnterNoGrad,
        JitTrace (example_model\<lparr>input_key := Some (PyStr ''video'')\<rparr>) (Tensor 1)
          (PyBool True) False,
        ExitNoGrad,
        LogInfo ''Saving torchscript to '/out'...'',
        ProgramTo (Program 1) (PyStr ''cpu''),
        PathOpen ''/out/torchscript.pt'' ''wb'',
        JitSave (Program 11) ''/out/torchscript.pt'',
        HandleClose ''/out/torchscript.pt'']"
    by (intro conjI c1 c2 c3 c4)
qed

text \<open>
  C6: with the script strategy the export calls the scripter on the model and returns
  its program, whatever \<^verbatim>\<open>input_shape\<close> and \<^verbatim>\<open>input_key\<close> are (no hypothesis
  mentions them); when the remaining collaborators return, \<^verbatim>\<open>on_end\<close> moves that
  program to the device and saves it.
\<close>

theorem on_end_script_needs_no_shape:
  assumes "is_primary e" and "\<not> truthy (use_trace (self s))"
    and "jit_script e (base_model s) False = Inr p"
  shows "export e s =
           (Inr (Some p),
            s\<lparr>events := events s @ [EnterNoGrad, JitScript (base_model s) False, ExitNoGrad]\<rparr>)
       \<and> (program_to e p (device (self s)) = Inr p' \<and>
          pathmgr_open e (fs s) (torchscript_name (self s)) ''wb'' = None \<and>
          jit_save e ((fs s)(torchscript_name (self s) \<mapsto> File None)) p'
            (torchscript_name (self s)) = None \<longrightarrow>
          on_end e s =
            (Inr (),
             s\<lparr>fs := (fs s)(torchscript_name (self s) \<mapsto> File (Some p')),
               events := events s @
                 [EnterNoGrad, JitScript (base_model s) False, ExitNoGrad,
                  LogInfo (saving_message (self s)),
                  ProgramTo p (device (self s)),
                  PathOpen (torchscript_name (self s)) ''wb'',
                  JitSave p' (torchscript_name (self s)),
                  HandleClose (torchscript_name (self s))]\<rparr>))"
proof -
  have ex: "export e s =
          (Inr (Some p),
           s\<lparr>events := events s @ [EnterNoGrad, JitScript (base_model s) False, ExitNoGrad]\<rparr>)"
    using assms(2,3) by (simp add: using_script)
  from save_torchscript_some [OF ex] assms(1) ex show ?thesis
    by (simp add: on_end_def open_and_save_ok)
qed

theorem on_end_script_needs_no_shape_witness:
  "is_primary example_env \<and>
   \<not> truthy (use_trace (self (example_state
        \<lparr>self := example_hook\<lparr>use_trace := PyBool False\<rparr>,
          base_model := example_model\<lparr>input_shape := None\<rparr>\<rparr>))) \<and>
   input_shape (base_model (example_state
        \<lparr>self := example_hook\<lparr>use_trace := PyBool False\<rparr>,
          base_model := example_model\<lparr>input_shape := None\<rparr>\<rparr>)) = None \<and>
   fst (on_end example_env (example_state
        \<lparr>self := example_hook\<lparr>use_trace := PyBool False\<rparr>,
          base_model := example_model\<lparr>input_shape := None\<rparr>\<rparr>)) = Inr () \<and>
   fs (snd (on_end example_env (example_state
        \<lparr>self := example_hook\<lparr>use_trace := PyBool False\<rparr>,
          base_model := example_model\<lparr>input_shape := None\<rparr>\<rparr>))) =
     [''/out'' \<mapsto> Dir, ''/out/torchscript.pt'' \<mapsto> File (Some (Program 12))]"
  using on_end_script_needs_no_shape
    [of example_env "example_state
        \<lparr>self := example_hook\<lparr>use_trace := PyBool False\<rparr>,
          base_model := example_model\<lparr>input_shape := None\<rparr>\<rparr>" "Program 2" "Program 12"]
  by (simp add: ex_defs torchscript_name_def TORCHSCRIPT_FILE_def)

text \<open>
  C7: on the designated writer \<^verbatim>\<open>on_end\<close> catches nothing. An exception of the
  tracer or of the scripter comes out of \<^verbatim>\<open>on_end\<close> as it is, after the calls of the
  export only: nothing is opened, the storage and the handles are unchanged. An
  exception of \<^verbatim>\<open>g_pathmgr.open\<close> comes out as it is and leaves the storage
  unchanged; an exception of \<^verbatim>\<open>torch.jit.save\<close> comes out as it is after the handle
  has been closed. On every exit path the open handles are those of the start.
\<close>

theorem on_end_propagates_errors:
  assumes "is_primary e"
  shows "handles (snd (on_end e s)) = handles s
    \<and> (truthy (use_trace (self s)) \<and> truthy (shape_of (base_model s)) \<and>
       get_model_dummy_input e (base_model s) (shape_of (base_model s)) (key_of (base_model s))
         = Inr inp \<and>
       jit_trace e (base_model s) False inp (trace_strict (self s)) = Inl xt \<longrightarrow>
         on_end e s =
           (Inl xt,
            s\<lparr>events := events s @
               [GetModelDummyInput (base_model s) (shape_of (base_model s))
                  (key_of (base_model s)),
                EnterNoGrad,
                JitTrace (base_model s) inp (trace_strict (self s)) False,
                ExitNoGrad]\<rparr>))
    \<and> (\<not> truthy (use_trace (self s)) \<and> jit_script e (base_model s) False = Inl xs \<longrightarrow>
         on_end e s =
           (Inl xs,
            s\<lparr>events := events s @
               [EnterNoGrad, JitScript (base_model s) False, ExitNoGrad]\<rparr>))
    \<and> (export e s = (Inr (Some p), sa) \<and> program_to e p (device (self s)) = Inr p' \<and>
       pathmgr_open e (fs s) (torchscript_name (self s)) ''wb'' = Some xo \<longrightarrow>
         on_end e s =
           (Inl xo,
            sa\<lparr>events := events sa @
               [LogInfo (saving_message (self s)), ProgramTo p (device (self s)),
                PathOpen (torchscript_name (self s)) ''wb'']\<rparr>)
         \<and> fs (snd (on_end e s)) = fs s)
    \<and> (export e s = (Inr (Some p), sa) \<and> program_to e p (device (self s)) = Inr p' \<and>
       pathmgr_open e (fs s) (torchscript_name (self s)) ''wb'' = None \<and>
       jit_save e ((fs s)(torchscript_name (self s) \<mapsto> File None)) p'
         (torchscript_name (self s)) = Some xw \<longrightarrow>
         on_end e s =
           (Inl xw,
            sa\<lparr>fs := (fs s)(torchscript_name (self s) \<mapsto> File None),
               events := events sa @
               [LogInfo (saving_message (self s)), ProgramTo p (device (self s)),
                PathOpen (torchscript_name (self s)) ''wb'',
                JitSave p' (torchscript_name (self s)),
                HandleClose (torchscript_name (self s))]\<rparr>))"
    (is "?H \<and> ?T \<and> ?S \<and> ?O \<and> ?W")
proof -
  have on_end: "on_end e s = save_torchscript e s" using assms by (simp add: on_end_def)
  have h: ?H using save_torchscript_frame [of e s] by (simp add: on_end)
  have t: ?T
  proof (intro impI, elim conjE)
    assume a: "truthy (use_trace (self s))" "truthy (shape_of (base_model s))"
      "get_model_dummy_input e (base_model s) (shape_of (base_model s)) (key_of (base_model s))
         = Inr inp"
      "jit_trace e (base_model s) False inp (trace_strict (self s)) = Inl xt"
    from using_trace_truthy [OF a(2,3)] a(1,4)
    show "on_end e s =
           (Inl xt,
            s\<lparr>events := events s @
               [GetModelDummyInput (base_model s) (shape_of (base_model s))
                  (key_of (base_model s)),
                EnterNoGrad,
                JitTrace (base_model s) inp (trace_strict (self s)) False,
                ExitNoGrad]\<rparr>)"
      by (simp add: on_end save_torchscript_export_raises)
  qed
  have sc: ?S
    by (simp add: on_end using_script save_torchscript_export_raises)
  have o: ?O
  proof (intro impI, elim conjE)
    assume a: "export e s = (Inr (Some p), sa)" "program_to e p (device (self s)) = Inr p'"
      "pathmgr_open e (fs s) (torchscript_name (self s)) ''wb'' = Some xo"
    have fr: "fs sa = fs s" using export_frame [OF a(1)] by simp
    from save_torchscript_some [OF a(1)] a(2,3) fr
    show "on_end e s =
           (Inl xo,
            sa\<lparr>events := events sa @
               [LogInfo (saving_message (self s)), ProgramTo p (device (self s)),
                PathOpen (torchscript_name (self s)) ''wb'']\<rparr>)
         \<and> fs (snd (on_end e s)) = fs s"
      by (simp add: on_end open_and_save_open_raises)
  qed
  have w: ?W
  proof (intro impI, elim conjE)
    assume a: "export e s = (Inr (Some p), sa)" "program_to e p (device (self s)) = Inr p'"
      "pathmgr_open e (fs s) (torchscript_name (self s)) ''wb'' = None"
      "jit_save e ((fs s)(torchscript_name (self s) \<mapsto> File None)) p'
         (torchscript_name (self s)) = Some xw"
    have fr: "fs sa = fs s" using export_frame [OF a(1)] by simp
    from save_torchscript_some [OF a(1)] a(2,3,4) fr
    show "on_end e s =
           (Inl xw,
            sa\<lparr>fs := (fs s)(torchscript_name (self s) \<mapsto> File None),
               events := events sa @
               [LogInfo (saving_message (self s)), ProgramTo p (device (self s)),
                PathOpen (torchscript_name (self s)) ''wb'',
                JitSave p' (torchscript_name (self s)),
                HandleClose (torchscript_name (self s))]\<rparr>)"
      by (simp add: on_end open_and_save_save_raises)
  qed
  from h t sc o w show ?thesis by blast
qed


theorem on_end_propagates_errors_witness:
  "is_primary example_env \<and>
   on_end (example_env\<lparr>jit_trace := \<lambda>m g x strict. Inl (ExternalError 7)\<rparr>) example_state =
     (Inl (ExternalError 7),
      example_state\<lparr>events :=
        [GetModelDummyInput example_model (PyTuple [PyInt 1, PyInt 3, PyInt 224, PyInt 224])
           PyNone,
         EnterNoGrad, JitTrace example_model (Tensor 0) (PyBool True) False, ExitNoGrad]\<rparr>) \<and>
   on_end (example_env\<lparr>jit_script := \<lambda>m g. Inl (ExternalError 8)\<rparr>)
       (example_state\<lparr>self := example_hook\<lparr>use_trace := PyBool False\<rparr>\<rparr>) =
     (Inl (ExternalError 8),
      example_state\<lparr>self := example_hook\<lparr>use_trace := PyBool False\<rparr>,
        events := [EnterNoGrad, JitScript example_model False, ExitNoGrad]\<rparr>) \<and>
   fst (on_end (example_env\<lparr>pathmgr_open := \<lambda>f p mode. Some (ExternalError 9)\<rparr>)
          example_state) = Inl (ExternalError 9) \<and>
   fs (snd (on_end (example_env\<lparr>pathmgr_open := \<lambda>f p mode. Some (ExternalError 9)\<rparr>)
          example_state)) = [''/out'' \<mapsto> Dir] \<and>
   fst (on_end (example_env\<lparr>jit_save := \<lambda>f p n. Some (ExternalError 10)\<rparr>)
          example_state) = Inl (ExternalError 10) \<and>
   handles (snd (on_end (example_env\<lparr>jit_save := \<lambda>f p n. Some (ExternalError 10)\<rparr>)
          example_state)) = [] \<and>
   last (events (snd (on_end (example_env\<lparr>jit_save := \<lambda>f p n. Some (ExternalError 10)\<rparr>)
          example_state))) = HandleClose ''/out/torchscript.pt''"
  using
    on_end_propagates_errors
      [where e = "example_env\<lparr>jit_trace := \<lambda>m g x strict. Inl (ExternalError 7)\<rparr>"
         and s = example_state and inp = "Tensor 0" and xt = "ExternalError 7"]
    on_end_propagates_errors
      [where e = "example_env\<lparr>jit_script := \<lambda>m g. Inl (ExternalError 8)\<rparr>"
         and s = "example_state\<lparr>self := example_hook\<lparr>use_trace := PyBool False\<rparr>\<rparr>"
         and xs = "ExternalError 8"]
    on_end_propagates_errors
      [where e = "example_env\<lparr>pathmgr_open := \<lambda>f p mode. Some (ExternalError 9)\<rparr>"
         and s = example_state and p = "Program 1" and p' = "Program 11"
         and xo = "ExternalError 9"
         and sa = "example_state\<lparr>events :=
           [GetModelDummyInput example_model
              (PyTuple [PyInt 1, PyInt 3, PyInt 224, PyInt 224]) PyNone,
            EnterNoGrad, JitTrace example_model (Tensor 0) (PyBool True) False,
            ExitNoGrad]\<rparr>"]
    on_end_propagates_errors
      [where e = "example_env\<lparr>jit_save := \<lambda>f p n. Some (ExternalError 10)\<rparr>"
         and s = example_state and p = "Program 1" and p' = "Program 11"
         and xw = "ExternalError 10"
         and sa = "example_state\<lparr>events :=
           [GetModelDummyInput example_model
              (PyTuple [PyInt 1, PyInt 3, PyInt 224, PyInt 224]) PyNone,
            EnterNoGrad, JitTrace example_model (Tensor 0) (PyBool True) False,
            ExitNoGrad]\<rparr>"]
  by (simp add: ex_defs shape_of_def key_of_def using_trace_truthy torchscript_name_def
        TORCHSCRIPT_FILE_def)

text \<open>
  C8: \<^verbatim>\<open>__init__\<close> raises exactly when \<^verbatim>\<open>torchscript_folder\<close> is not a string, and
  then it is the \<open>AssertionError\<close> of the type check. For every string, the empty one
  included, it returns a hook that holds the folder and the three other arguments as
  they were passed, whatever their values; an argument left out is \<^verbatim>\<open>True\<close>,
  \<^verbatim>\<open>True\<close> and \<^verbatim>\<open>"cpu"\<close>.
\<close>

theorem init_checks_folder_type_only:
  "((\<exists>x. init folder_arg u t d = Inl x) \<longleftrightarrow> \<not> isinstance_str folder_arg)
   \<and> (\<not> isinstance_str folder_arg \<longrightarrow>
        (\<exists>msg. init folder_arg u t d = Inl (AssertionError msg)))
   \<and> init (PyStr folder) u t d =
        Inr \<lparr> torchscript_folder = folder,
              use_trace = (case u of None \<Rightarrow> PyBool True | Some v \<Rightarrow> v),
              trace_strict = (case t of None \<Rightarrow> PyBool True | Some v \<Rightarrow> v),
              device = (case d of None \<Rightarrow> PyStr ''cpu'' | Some v \<Rightarrow> v) \<rparr>
   \<and> init (PyStr folder) (Some u') (Some t') (Some d') =
        Inr \<lparr> torchscript_folder = folder, use_trace = u', trace_strict = t', device = d' \<rparr>
   \<and> init (PyStr folder) None None None =
        Inr \<lparr> torchscript_folder = folder, use_trace = PyBool True,
              trace_strict = PyBool True, device = PyStr ''cpu'' \<rparr>"
  by (cases folder_arg) (simp_all add: init_def)

theorem init_checks_folder_type_only_witness:
  "\<not> isinstance_str (PyInt 3) \<and>
   init (PyInt 3) None None None =
     Inl (AssertionError
       ''torchscript_folder must be a string specifying the torchscript directory'') \<and>
   init PyNone (Some (PyBool False)) None None =
     Inl (AssertionError
       ''torchscript_folder must be a string specifying the torchscript directory'') \<and>
   init (PyStr []) None None None =
     Inr \<lparr> torchscript_folder = [], use_trace = PyBool True,
           trace_strict = PyBool True, device = PyStr ''cpu'' \<rparr> \<and>
   init (PyStr ''/out'') (Some (PyInt 0)) (Some PyNone) (Some (PyStr ''cuda:0'')) =
     Inr \<lparr> torchscript_folder = ''/out'', use_trace = PyInt 0,
           trace_strict = PyNone, device = PyStr ''cuda:0'' \<rparr>"
  using init_checks_folder_type_only [of "PyInt 3" None None None]
    init_checks_folder_type_only [of PyNone "Some (PyBool False)" None None]
  by (simp add: init_def)


subsection \<open>A second run of the export\<close>

lemma open_and_save_returns:
  assumes "open_and_save e name q t = (Inr (), t')"
  shows "pathmgr_open e (fs t) name ''wb'' = None
       \<and> jit_save e ((fs t)(name \<mapsto> File None)) q name = None
       \<and> t' = t\<lparr>fs := (fs t)(name \<mapsto> File (Some q)),
                 events := events t @ [PathOpen name ''wb'', JitSave q name, HandleClose name]\<rparr>"
proof (cases "pathmgr_open e (fs t) name ''wb''")
  case (Some x)
  from open_and_save_open_raises [OF this] assms show ?thesis by simp
next
  case None
  show ?thesis
  proof (cases "jit_save e ((fs t)(name \<mapsto> File None)) q name")
    case (Some x)
    from open_and_save_save_raises [OF None this] assms show ?thesis by simp
  next
    case n2: None
    from open_and_save_ok [OF None n2] assms None n2 show ?thesis by simp
  qed
qed

lemma new_events_append [simp]: "new_events s (t\<lparr>events := events s @ evs\<rparr>) = evs"
  by (simp add: new_events_def)

lemma second_on_end:
  assumes prim: "is_primary e" and first: "on_end e s = (Inr (), sa)"
    and artifact: "fs sa (torchscript_name (self s)) = Some (File (Some p'))"
    and op: "pathmgr_open e (fs sa) (torchscript_name (self s)) ''wb'' = None"
    and sv: "jit_save e ((fs sa)(torchscript_name (self s) \<mapsto> File None)) p'
               (torchscript_name (self s)) = None"
  shows "fst (on_end e sa) = Inr () \<and> fs (snd (on_end e sa)) = fs sa
       \<and> new_events sa (snd (on_end e sa)) = new_events s sa
       \<and> PathOpen (torchscript_name (self s)) ''wb'' \<in> set (new_events sa (snd (on_end e sa)))
       \<and> JitSave p' (torchscript_name (self s)) \<in> set (new_events sa (snd (on_end e sa)))"
proof -
  let ?n = "torchscript_name (self s)"
  obtain r evs where ex: "\<And>t. self t = self s \<Longrightarrow> base_model t = base_model s \<Longrightarrow>
      export e t = (r, t\<lparr>events := events t @ evs\<rparr>)"
    using export_shape [of s e] by blast
  have ex1: "export e s = (r, s\<lparr>events := events s @ evs\<rparr>)" by (rule ex) simp_all
  have sv1: "save_torchscript e s = (Inr (), sa)" using prim first by (simp add: on_end_def)
  obtain p where r: "r = Inr (Some p)"
  proof (cases r)
    case (Inl x)
    with save_torchscript_export_raises [where e = e and s = s and x = x] ex1 sv1 show ?thesis by simp
  next
    case (Inr o1)
    show ?thesis
    proof (cases o1)
      case None
      with Inr save_torchscript_none [where e = e and s = s] ex1 sv1 show ?thesis by simp
    next
      case (Some p)
      with Inr that show ?thesis by simp
    qed
  qed
  let ?mid = "\<lambda>t. t\<lparr>events := events t @ evs @
                 [LogInfo (saving_message (self s)), ProgramTo p (device (self s))]\<rparr>"
  have st1: "save_torchscript e s =
      (case program_to e p (device (self s)) of
         Inl x \<Rightarrow> (Inl x, ?mid s)
       | Inr q \<Rightarrow> open_and_save e ?n q (?mid s))"
    using save_torchscript_some [where e = e and s = s and p = p] ex1 r
    by (simp split: sum.splits)
  obtain q where q: "program_to e p (device (self s)) = Inr q"
    using st1 sv1 by (cases "program_to e p (device (self s))") simp_all
  have os1: "open_and_save e ?n q (?mid s) = (Inr (), sa)" using st1 sv1 q by simp
  note ret = open_and_save_returns [OF os1]
  have sa: "sa = s\<lparr>fs := (fs s)(?n \<mapsto> File (Some q)),
                  events := events s @ evs @
                    [LogInfo (saving_message (self s)), ProgramTo p (device (self s)),
                     PathOpen ?n ''wb'', JitSave q ?n, HandleClose ?n]\<rparr>"
    using ret by simp
  have qp: "q = p'" using artifact sa by simp
  have self_sa: "self sa = self s" and model_sa: "base_model sa = base_model s"
    using sa by simp_all
  have ex2: "export e sa = (Inr (Some p), sa\<lparr>events := events sa @ evs\<rparr>)"
    using ex [OF self_sa model_sa] r by simp
  have st2: "save_torchscript e sa = open_and_save e ?n q (?mid sa)"
    using save_torchscript_some [OF ex2] q self_sa by simp
  have os2: "open_and_save e ?n q (?mid sa) =
      (Inr (), (?mid sa)\<lparr>fs := (fs sa)(?n \<mapsto> File (Some q)),
          events := events (?mid sa) @ [PathOpen ?n ''wb'', JitSave q ?n, HandleClose ?n]\<rparr>)"
    using open_and_save_ok [of e "?mid sa" ?n q] op sv qp by simp
  have idem: "(fs sa)(?n \<mapsto> File (Some q)) = fs sa"
    using artifact qp by (simp add: fun_upd_idem)
  have ne1: "new_events s sa = evs @
       [LogInfo (saving_message (self s)), ProgramTo p (device (self s)),
        PathOpen ?n ''wb'', JitSave q ?n, HandleClose ?n]"
    by (simp add: sa new_events_def)
  have res: "on_end e sa =
      (Inr (), sa\<lparr>fs := fs sa, events := events sa @ evs @
          [LogInfo (saving_message (self s)), ProgramTo p (device (self s)),
           PathOpen ?n ''wb'', JitSave q ?n, HandleClose ?n]\<rparr>)"
    using prim st2 os2 idem by (simp add: on_end_def)
  show ?thesis using ne1 qp by (simp add: res)
qed

lemma example_export:
  "export example_env example_state =
     (Inr (Some (Program 1)),
      example_state\<lparr>events :=
        [GetModelDummyInput example_model
           (PyTuple [PyInt 1, PyInt 3, PyInt 224, PyInt 224]) PyNone,
         EnterNoGrad, JitTrace example_model (Tensor 0) (PyBool True) False, ExitNoGrad]\<rparr>)"
  by (simp add: using_trace_truthy ex_defs shape_of_def key_of_def)

lemma example_first_run: "on_end example_env example_state = (Inr (), example_exported)"
  using save_torchscript_some [OF example_export]
  by (simp add: on_end_def open_and_save_ok example_exported_def ex_defs torchscript_name_def
        TORCHSCRIPT_FILE_def)

text \<open>
  C9: no callback changes the attributes of the hook (\<^verbatim>\<open>on_start\<close>, \<^verbatim>\<open>on_end\<close> and
  the three no-ops). When \<^verbatim>\<open>on_end\<close> has returned on the designated writer and is
  called again, with the path manager and the serializer returning again, it returns
  without error, makes the same calls as the first run (a full export, with the same
  path opened in mode \<^verbatim>\<open>wb\<close>), and leaves the storage as the first run left it: the
  artifact is overwritten at the same path.
\<close>

theorem hook_keeps_no_state:
  "self (snd (on_start e s)) = self s
   \<and> self (snd (on_end e s)) = self s
   \<and> self (snd (on_phase_start e s)) = self s
   \<and> self (snd (on_phase_end e s)) = self s
   \<and> self (snd (on_step e s)) = self s
   \<and> (is_primary e \<and> on_end e s = (Inr (), sa)
      \<and> fs sa (torchscript_name (self s)) = Some (File (Some p'))
      \<and> pathmgr_open e (fs sa) (torchscript_name (self s)) ''wb'' = None
      \<and> jit_save e ((fs sa)(torchscript_name (self s) \<mapsto> File None)) p'
           (torchscript_name (self s)) = None
      \<longrightarrow> fst (on_end e sa) = Inr () \<and> fs (snd (on_end e sa)) = fs sa
        \<and> new_events sa (snd (on_end e sa)) = new_events s sa
        \<and> PathOpen (torchscript_name (self s)) ''wb'' \<in> set (new_events sa (snd (on_end e sa)))
        \<and> JitSave p' (torchscript_name (self s)) \<in> set (new_events sa (snd (on_end e sa))))"
proof -
  have "self (snd (on_start e s)) = self s"
    by (simp add: on_start_def Let_def emit_def)
  moreover have "self (snd (on_end e s)) = self s"
    using save_torchscript_frame [of e s] by (simp add: on_end_def)
  moreover have "self (snd (on_phase_start e s)) = self s"
    "self (snd (on_phase_end e s)) = self s" "self (snd (on_step e s)) = self s"
    by (simp_all add: on_phase_start_def on_phase_end_def on_step_def noop_def)
  ultimately show ?thesis using second_on_end [of e s sa p'] by blast
qed


theorem hook_keeps_no_state_witness:
  "is_primary example_env \<and>
   on_end example_env example_state = (Inr (), example_exported) \<and>
   fs example_exported ''/out/torchscript.pt'' = Some (File (Some (Program 11))) \<and>
   fst (on_end example_env example_exported) = Inr () \<and>
   fs (snd (on_end example_env example_exported)) = fs example_exported \<and>
   new_events example_exported (snd (on_end example_env example_exported)) =
     events example_exported \<and>
   self (snd (on_end example_env example_exported)) = example_hook"
  using hook_keeps_no_state [of example_env example_state example_exported "Program 11"]
    hook_keeps_no_state [of example_env example_exported]
    example_first_run
  by (simp add: torchscript_name_def TORCHSCRIPT_FILE_def new_events_def)
    (simp add: example_exported_def ex_defs)

text \<open>
  The tracer is not called on every true shape: the dummy input is built first, and
  when its builder raises, the exception leaves \<^verbatim>\<open>torchscript_using_trace\<close> with the
  call of the builder as the only event.
\<close>

theorem tracer_not_called_when_builder_raises:
  "truthy (shape_of (base_model example_state)) \<and>
   fst (torchscript_using_trace example_failing_builder_env example_state)
     = Inl (ExternalError 5) \<and>
   new_events example_state
       (snd (torchscript_using_trace example_failing_builder_env example_state)) =
     [GetModelDummyInput example_model (PyTuple [PyInt 1, PyInt 3, PyInt 224, PyInt 224])
        PyNone]"
  by (simp add: using_trace_builder_raises example_failing_builder_env_def ex_defs shape_of_def
        key_of_def emit_def new_events_def)

text \<open>
  C10, as amended: \<^verbatim>\<open>torchscript_using_trace\<close> tests the truth value of
  \<^verbatim>\<open>input_shape\<close>, so an attribute that is present but false is treated as an absent
  one: in both cases the warning is logged and \<^verbatim>\<open>None\<close> is returned, with no call of
  the builder of the dummy input or of the tracer. The builder is called exactly when
  the shape is true. The tracer is called exactly when the shape is true and the
  builder returns; an exception of the builder leaves the function before the tracer
  is called.
\<close>

theorem trace_requires_truthy_input_shape:
  "(\<not> truthy (shape_of (base_model s)) \<longrightarrow>
      torchscript_using_trace e s = (Inr None, emit (LogWarning warning_message) s))
   \<and> (input_shape (base_model s) = None \<longrightarrow> \<not> truthy (shape_of (base_model s)))
   \<and> ((\<exists>m sh k. GetModelDummyInput m sh k
           \<in> set (new_events s (snd (torchscript_using_trace e s))))
        \<longleftrightarrow> truthy (shape_of (base_model s)))
   \<and> ((\<exists>m x st g. JitTrace m x st g \<in> set (new_events s (snd (torchscript_using_trace e s))))
        \<longleftrightarrow> truthy (shape_of (base_model s)) \<and>
            (\<exists>x. get_model_dummy_input e (base_model s) (shape_of (base_model s))
                    (key_of (base_model s)) = Inr x))
   \<and> (\<forall>x. truthy (shape_of (base_model s)) \<and>
            get_model_dummy_input e (base_model s) (shape_of (base_model s))
              (key_of (base_model s)) = Inl x \<longrightarrow>
          torchscript_using_trace e s =
            (Inl x, emit (GetModelDummyInput (base_model s) (shape_of (base_model s))
                            (key_of (base_model s))) s))"
proof (cases "truthy (shape_of (base_model s))")
  case False
  then show ?thesis
    by (simp add: using_trace_falsy emit_def shape_of_def)
next
  case True
  show ?thesis
  proof (cases "get_model_dummy_input e (base_model s) (shape_of (base_model s))
                  (key_of (base_model s))")
    case (Inl x)
    with True show ?thesis
      by (auto simp: using_trace_builder_raises emit_def shape_of_def)
  next
    case (Inr x)
    with True show ?thesis
      by (auto simp: using_trace_truthy shape_of_def)
  qed
qed

theorem trace_requires_truthy_input_shape_witness:
  "(\<not> truthy (shape_of (example_model\<lparr>input_shape := Some (PyTuple [])\<rparr>)) \<and>
    torchscript_using_trace example_env
        (example_state\<lparr>base_model := example_model\<lparr>input_shape := Some (PyTuple [])\<rparr>\<rparr>) =
      (Inr None,
       example_state\<lparr>base_model := example_model\<lparr>input_shape := Some (PyTuple [])\<rparr>,
         events := [LogWarning warning_message]\<rparr>) \<and>
    input_shape (example_model\<lparr>input_shape := None\<rparr>) = None \<and>
    torchscript_using_trace example_env
        (example_state\<lparr>base_model := example_model\<lparr>input_shape := None\<rparr>\<rparr>) =
      (Inr None,
       example_state\<lparr>base_model := example_model\<lparr>input_shape := None\<rparr>,
         events := [LogWarning warning_message]\<rparr>))
   \<and> (truthy (shape_of (base_model example_state)) \<and>
      get_model_dummy_input example_env (base_model example_state)
        (shape_of (base_model example_state)) (key_of (base_model example_state))
        = Inr (Tensor 0) \<and>
      JitTrace example_model (Tensor 0) (PyBool True) False
        \<in> set (new_events example_state
                 (snd (torchscript_using_trace example_env example_state))))
   \<and> (get_model_dummy_input example_failing_builder_env (base_model example_state)
        (shape_of (base_model example_state)) (key_of (base_model example_state))
        = Inl (ExternalError 5) \<and>
      torchscript_using_trace example_failing_builder_env example_state =
        (Inl (ExternalError 5),
         example_state\<lparr>events :=
           [GetModelDummyInput example_model
              (PyTuple [PyInt 1, PyInt 3, PyInt 224, PyInt 224]) PyNone]\<rparr>))"
proof (intro conjI)
  note inst1 = trace_requires_truthy_input_shape
        [of "example_state\<lparr>base_model := example_model\<lparr>input_shape := Some (PyTuple [])\<rparr>\<rparr>"
            example_env]
  note inst2 = trace_requires_truthy_input_shape
        [of "example_state\<lparr>base_model := example_model\<lparr>input_shape := None\<rparr>\<rparr>" example_env]
  show "\<not> truthy (shape_of (example_model\<lparr>input_shape := Some (PyTuple [])\<rparr>))"
    by (simp add: ex_defs shape_of_def)
  show "torchscript_using_trace example_env
        (example_state\<lparr>base_model := example_model\<lparr>input_shape := Some (PyTuple [])\<rparr>\<rparr>) =
      (Inr None,
       example_state\<lparr>base_model := example_model\<lparr>input_shape := Some (PyTuple [])\<rparr>,
         events := [LogWarning warning_message]\<rparr>)"
    using inst1 by (simp add: ex_defs shape_of_def emit_def)
  show "input_shape (example_model\<lparr>input_shape := None\<rparr>) = None" by simp
  show "torchscript_using_trace example_env
        (example_state\<lparr>base_model := example_model\<lparr>input_shape := None\<rparr>\<rparr>) =
      (Inr None,
       example_state\<lparr>base_model := example_model\<lparr>input_shape := None\<rparr>,
         events := [LogWarning warning_message]\<rparr>)"
    using inst2 by (simp add: ex_defs shape_of_def emit_def)
next
  show "truthy (shape_of (base_model example_state))"
    by (simp add: ex_defs shape_of_def)
  show "get_model_dummy_input example_env (base_model example_state)
        (shape_of (base_model example_state)) (key_of (base_model example_state))
        = Inr (Tensor 0)"
    by (simp add: ex_defs)
  show "JitTrace example_model (Tensor 0) (PyBool True) False
        \<in> set (new_events example_state
                 (snd (torchscript_using_trace example_env example_state)))"
    using trace_requires_truthy_input_shape [of example_state example_env]
    by (simp add: ex_defs shape_of_def key_of_def using_trace_truthy new_events_def)
next
  have sh: "truthy (shape_of (base_model example_state))"
    by (simp add: ex_defs shape_of_def)
  show br: "get_model_dummy_input example_failing_builder_env (base_model example_state)
        (shape_of (base_model example_state)) (key_of (base_model example_state))
        = Inl (ExternalError 5)"
    by (simp add: example_failing_builder_env_def ex_defs)
  from trace_requires_truthy_input_shape [of example_state example_failing_builder_env] sh br
  have "torchscript_using_trace example_failing_builder_env example_state =
      (Inl (ExternalError 5),
       emit (GetModelDummyInput (base_model example_state) (shape_of (base_model example_state))
               (key_of (base_model example_state))) example_state)"
    by blast
  then show "torchscript_using_trace example_failing_builder_env example_state =
        (Inl (ExternalError 5),
         example_state\<lparr>events :=
           [GetModelDummyInput example_model
              (PyTuple [PyInt 1, PyInt 3, PyInt 224, PyInt 224]) PyNone]\<rparr>)"
    by (simp add: ex_defs shape_of_def key_of_def emit_def)
qed

end
